theory Spec2Isabelle
  imports Main "HOL-Library.Word" "HOL-Library.Sublist"
begin

section \<open>The UDP test receiver of EPLive (test_receiver.py)\<close>

text \<open>
  The script binds a UDP socket, opens a file named after the start time and then loops
  for ever: receive a datagram, count it, write it to the file, flush, and print a line
  of statistics on every 100th packet. Ctrl-C ends the loop and prints a report.

  The embedding is a function \<open>main\<close> from an environment (the command line, the
  clock, the outcome of each system call and the sequence of things that happen at
  \<open>recvfrom\<close>) to what the process leaves behind: its exit status, the lines it printed,
  the exception of the traceback, the socket and the file.
\<close>

subsection \<open>Data\<close>

type_synonym bytes = "8 word list"

text \<open>The address that \<open>recvfrom\<close> returns: host and port.\<close>

type_synonym addr = "string \<times> int"

datatype exc = ValueError | OverflowError | OSError | KeyboardInterrupt

text \<open>
  The file object returned by \<open>open(output_file, 'wb')\<close>. \<open>pending\<close> is the buffer
  of the file object, inside the process. \<open>os_data\<close> are the bytes handed to the
  operating system: they outlive the process. \<open>on_disk\<close> are the bytes that a call of
  \<open>os.fsync\<close> has forced to the storage device: only they are guaranteed to outlive
  a crash of the machine. The script never calls \<open>os.fsync\<close>, so no operation below
  changes \<open>on_disk\<close>. \<open>broken\<close> says that the storage has refused bytes of this
  file.
\<close>

record fileobj =
  pending :: bytes
  os_data :: bytes
  on_disk :: bytes
  closed :: bool
  broken :: bool

definition open_wb :: fileobj where
  "open_wb = \<lparr>pending = [], os_data = [], on_disk = [], closed = False, broken = False\<rparr>"

definition f_write :: "bytes \<Rightarrow> fileobj \<Rightarrow> fileobj" where
  "f_write data fl = fl\<lparr>pending := pending fl @ data\<rparr>"

definition f_flush :: "fileobj \<Rightarrow> fileobj" where
  "f_flush fl = fl\<lparr>os_data := os_data fl @ pending fl, pending := []\<rparr>"

text \<open>
  A flush that raises \<open>OSError\<close>: the storage takes \<open>n\<close> of the bytes of the buffer
  and refuses the next one; the bytes that it has not taken stay in the buffer.
\<close>

definition f_flush_fails :: "nat \<Rightarrow> fileobj \<Rightarrow> fileobj" where
  "f_flush_fails n fl =
     fl\<lparr>os_data := os_data fl @ take n (pending fl), pending := drop n (pending fl),
        broken := True\<rparr>"

text \<open>
  Leaving the \<open>with\<close> block closes the file; closing flushes first. On a storage that
  has refused bytes this flush fails again: the file is closed and what was in the buffer
  never reaches it.
\<close>

definition f_close :: "fileobj \<Rightarrow> fileobj" where
  "f_close fl =
     (if closed fl then fl
      else if broken fl then fl\<lparr>closed := True\<rparr>
      else (f_flush fl)\<lparr>closed := True\<rparr>)"

text \<open>
  The lines of standard output, one constructor for each \<open>print\<close> of the source, with
  the values that the f-string interpolates. The rendering of numbers (\<open>{packet_count:,}\<close>,
  \<open>{mb:.2f}\<close>, a floating-point division by \<open>1024 * 1024\<close>) is not modelled: the lines
  that show megabytes carry \<open>total_bytes\<close>.
\<close>

datatype line =
    Banner
  | Listening int
  | Started string
  | Dashes
  | Saving string
  | WaitingForData
  | Connected string int
  | Progress int int int
  | Equals
  | Stopped
  | TotalPackets int
  | TotalData int
  | SavedTo string
  | ToPlay
  | Ffplay string
  | Or
  | Vlc string

datatype sock_state = NoSocket | Unbound | Bound int | SockClosed

text \<open>
  What the storage does with the payload of a datagram: it takes all of it, or it takes
  \<open>n\<close> bytes and refuses the next one, so that the write or the flush raises
  \<open>OSError\<close> (\<open>n\<close> is less than the length of the payload).
\<close>

datatype storage = StorageOk | StorageFails nat

text \<open>
  Ctrl-C raises \<open>KeyboardInterrupt\<close> between two statements, wherever the program is.
  In the body of the loop that is before one of its six statements: the \<open>if\<close> of line
  39, the two additions of lines 42 and 43, the write of line 46, the flush of line 47 and
  the \<open>if\<close> of line 50. (After the last statement the program is at \<open>recvfrom\<close>
  again.)
\<close>

datatype point =
  BeforeConnected | BeforeCount | BeforeTotal | BeforeWrite | BeforeFlush | BeforeStats

text \<open>
  What can happen at one turn of the loop: a datagram arrives and the body runs (with
  the storage taking the payload or not); a datagram arrives and Ctrl-C stops the body
  at some point; \<open>recvfrom\<close> raises \<open>OSError\<close>; or the operator presses Ctrl-C while
  the program waits in \<open>recvfrom\<close>.
\<close>

datatype event =
    Datagram bytes addr storage
  | Interrupted bytes addr point
  | RecvFails
  | CtrlC

record env =
  argv :: "string list"
  now_hms :: string
  now_stamp :: string
  socket_ok :: bool
  bind_ok :: bool
  open_ok :: bool
  events :: "event list"

text \<open>The local variables of \<open>main\<close> that the loop changes, and standard output.\<close>

record state =
  packet_count :: int
  total_bytes :: int
  outfile :: fileobj
  out :: "line list"

datatype status = Exit int | Blocked

record result =
  status :: status
  printed :: "line list"
  traceback :: "exc option"
  sock :: sock_state
  artifact :: "(string \<times> fileobj) option"
  counters :: "(int \<times> int) option"

subsection \<open>\<open>int(sys.argv[1])\<close>\<close>

text \<open>
  Python's \<open>int\<close> on a string, base 10: white space is stripped at both ends, then an
  optional sign, then decimal digits, where a single underscore may stand between two
  digits. A \<open>char\<close> is read as the code point of the same number (below 256); there
  the white space that \<open>int\<close> strips is 9 to 13, 32, 133 and 160, and the only decimal
  digits are \<open>0\<close> to \<open>9\<close>. \<open>None\<close> is \<open>ValueError\<close>. (The limit on the number of
  digits that Python has from version 3.11 on, 4300 by default, is not part of the model.)
\<close>

definition is_space :: "char \<Rightarrow> bool" where
  "is_space c = (let n = (of_char c :: nat) in
     (9 \<le> n \<and> n \<le> 13) \<or> n = 32 \<or> n = 133 \<or> n = 160)"

definition is_digit :: "char \<Rightarrow> bool" where
  "is_digit c = (let n = (of_char c :: nat) in 48 \<le> n \<and> n \<le> 57)"

definition digit_val :: "char \<Rightarrow> int" where
  "digit_val c = int (of_char c) - 48"

definition strip :: "string \<Rightarrow> string" where
  "strip s = rev (dropWhile is_space (rev (dropWhile is_space s)))"

fun parse_digits :: "int \<Rightarrow> string \<Rightarrow> int option" where
  "parse_digits acc [] = Some acc"
| "parse_digits acc [c] = (if is_digit c then Some (acc * 10 + digit_val c) else None)"
| "parse_digits acc (c # d # cs) =
     (if is_digit c then parse_digits (acc * 10 + digit_val c) (d # cs)
      else if c = CHR ''_'' \<and> is_digit d then parse_digits (acc * 10 + digit_val d) cs
      else None)"

definition parse_nat :: "string \<Rightarrow> int option" where
  "parse_nat s = (case s of
       [] \<Rightarrow> None
     | c # cs \<Rightarrow> if is_digit c then parse_digits (digit_val c) cs else None)"

definition py_int :: "string \<Rightarrow> int option" where
  "py_int s = (case strip s of
       [] \<Rightarrow> None
     | c # cs \<Rightarrow>
         if c = CHR ''-'' then map_option uminus (parse_nat cs)
         else if c = CHR ''+'' then parse_nat cs
         else parse_nat (c # cs))"

text \<open>Line 13: \<open>port = int(sys.argv[1]) if len(sys.argv) > 1 else 8888\<close>.\<close>

definition parse_port :: "string list \<Rightarrow> exc + int" where
  "parse_port av =
     (if length av > 1 then
        (case py_int (av ! 1) of None \<Rightarrow> Inl ValueError | Some n \<Rightarrow> Inr n)
      else Inr 8888)"

subsection \<open>The receive loop\<close>

text \<open>
  \<open>sock.recvfrom(65535)\<close> returns at most 65535 bytes of the datagram and the address
  of its sender.
\<close>

definition recvfrom ::
  "nat \<Rightarrow> event \<Rightarrow> exc + (bytes \<times> addr \<times> storage \<times> point option)" where
  "recvfrom bufsize ev = (case ev of
       Datagram payload a st \<Rightarrow> Inr (take bufsize payload, a, st, None)
     | Interrupted payload a pt \<Rightarrow> Inr (take bufsize payload, a, StorageOk, Some pt)
     | RecvFails \<Rightarrow> Inl OSError
     | CtrlC \<Rightarrow> Inl KeyboardInterrupt)"

definition print :: "line \<Rightarrow> state \<Rightarrow> state" where
  "print l s = s\<lparr>out := out s @ [l]\<rparr>"

text \<open>
  Lines 39 to 52, the body of the loop after \<open>recvfrom\<close> has returned, statement by
  statement, with what the storage does at the write and the flush and with the point
  where Ctrl-C stops the body, if it does. The result is the exception that leaves the
  body, if any, and the state at that point.
\<close>

definition process ::
  "state \<Rightarrow> bytes \<Rightarrow> addr \<Rightarrow> storage \<Rightarrow> point option \<Rightarrow> exc option \<times> state" where
  "process s data a st ip =
     (if ip = Some BeforeConnected then (Some KeyboardInterrupt, s) else
      let s1 = (if packet_count s = 0 then print (Connected (fst a) (snd a)) s else s) in
      if ip = Some BeforeCount then (Some KeyboardInterrupt, s1) else
      let s2 = s1\<lparr>packet_count := packet_count s1 + 1\<rparr> in
      if ip = Some BeforeTotal then (Some KeyboardInterrupt, s2) else
      let s3 = s2\<lparr>total_bytes := total_bytes s2 + int (length data)\<rparr> in
      if ip = Some BeforeWrite then (Some KeyboardInterrupt, s3) else
      let s4 = s3\<lparr>outfile := f_write data (outfile s3)\<rparr> in
      if ip = Some BeforeFlush then (Some KeyboardInterrupt, s4) else
      (case st of
         StorageFails n \<Rightarrow> (Some OSError, s4\<lparr>outfile := f_flush_fails n (outfile s4)\<rparr>)
       | StorageOk \<Rightarrow>
           let s5 = s4\<lparr>outfile := f_flush (outfile s4)\<rparr> in
           if ip = Some BeforeStats then (Some KeyboardInterrupt, s5) else
           if packet_count s5 mod 100 = 0
           then (None, print (Progress (packet_count s5) (total_bytes s5) (int (length data))) s5)
           else (None, s5)))"

text \<open>
  \<open>while True\<close>: the loop goes on as long as things happen at \<open>recvfrom\<close>; when nothing
  more happens the process is blocked in the call (\<open>None\<close> and the state there).
\<close>

fun receive_loop :: "state \<Rightarrow> event list \<Rightarrow> exc option \<times> state" where
  "receive_loop s [] = (None, s)"
| "receive_loop s (ev # evs) =
     (case recvfrom 65535 ev of
        Inl x \<Rightarrow> (Some x, s)
      | Inr (data, a, st, ip) \<Rightarrow>
          (case process s data a st ip of
             (Some x, s') \<Rightarrow> (Some x, s')
           | (None, s') \<Rightarrow> receive_loop s' evs))"

subsection \<open>\<open>main\<close>\<close>

definition startup_lines :: "int \<Rightarrow> string \<Rightarrow> string \<Rightarrow> line list" where
  "startup_lines port hms output_file =
     [Banner, Listening port, Started hms, Dashes,
      Saving output_file, WaitingForData, Dashes]"

text \<open>Lines 55 to 64, the handler of \<open>KeyboardInterrupt\<close>.\<close>

definition report :: "int \<Rightarrow> int \<Rightarrow> string \<Rightarrow> line list" where
  "report pc tb output_file =
     [Equals, Stopped, TotalPackets pc, TotalData tb, SavedTo output_file, Equals,
      ToPlay, Ffplay output_file, Or, Vlc output_file]"

text \<open>An exception that nothing catches: the traceback and exit status 1.\<close>

definition uncaught :: "exc \<Rightarrow> line list \<Rightarrow> sock_state \<Rightarrow> (string \<times> fileobj) option
    \<Rightarrow> (int \<times> int) option \<Rightarrow> result" where
  "uncaught x ls sk art cs =
     \<lparr>status = Exit 1, printed = ls, traceback = Some x, sock = sk, artifact = art,
      counters = cs\<rparr>"

text \<open>
  \<open>bind\<close> raises \<open>OverflowError\<close> for a port outside 0 to 65535 and \<open>OSError\<close> when the
  operating system refuses the address.
\<close>

definition sock_bind :: "env \<Rightarrow> int \<Rightarrow> exc option" where
  "sock_bind e port =
     (if port < 0 \<or> 65535 < port then Some OverflowError
      else if bind_ok e then None else Some OSError)"

text \<open>Line 28: the name of the file, from the clock.\<close>

definition output_file :: "env \<Rightarrow> string" where
  "output_file e = ''stream_'' @ now_stamp e @ ''.h264''"

text \<open>
  The state in which the loop is entered: both counters are 0 (lines 24 and 25), the file
  has just been opened, and the lines of lines 19 to 32 have been printed.
\<close>

definition initial :: "int \<Rightarrow> env \<Rightarrow> state" where
  "initial port e =
     \<lparr>packet_count = 0, total_bytes = 0, outfile = open_wb,
      out = startup_lines port (now_hms e) (output_file e)\<rparr>"

text \<open>
  The socket is created and bound outside the \<open>try\<close>: an exception there leaves the
  socket as it is. \<open>open\<close> and the loop are inside: whatever leaves them, the \<open>with\<close>
  closes the file (when it was opened) and \<open>finally\<close> closes the socket; only
  \<open>KeyboardInterrupt\<close> is caught. When nothing more happens at \<open>recvfrom\<close> the process
  stays blocked there.
\<close>

definition main :: "env \<Rightarrow> result" where
  "main e =
     (case parse_port (argv e) of
        Inl x \<Rightarrow> uncaught x [] NoSocket None None
      | Inr port \<Rightarrow>
          if \<not> socket_ok e then uncaught OSError [] NoSocket None None
          else (case sock_bind e port of
            Some x \<Rightarrow> uncaught x [] Unbound None None
          | None \<Rightarrow>
              if \<not> open_ok e
              then uncaught OSError (out (initial port e)) SockClosed None (Some (0, 0))
              else
                (case receive_loop (initial port e) (events e) of
                   (None, s) \<Rightarrow>
                     \<lparr>status = Blocked, printed = out s, traceback = None,
                      sock = Bound port, artifact = Some (output_file e, outfile s),
                      counters = Some (packet_count s, total_bytes s)\<rparr>
                 | (Some x, s) \<Rightarrow>
                     if x = KeyboardInterrupt then
                       \<lparr>status = Exit 0,
                        printed = out s @ report (packet_count s) (total_bytes s) (output_file e),
                        traceback = None, sock = SockClosed,
                        artifact = Some (output_file e, f_close (outfile s)),
                        counters = Some (packet_count s, total_bytes s)\<rparr>
                     else uncaught x (out s) SockClosed
                            (Some (output_file e, f_close (outfile s)))
                            (Some (packet_count s, total_bytes s)))))"

subsection \<open>Notions for the statements\<close>

text \<open>
  The start succeeds: the argument is a port number that \<open>bind\<close> accepts, and creating
  the socket, binding it and opening the file all succeed.
\<close>

definition starts :: "env \<Rightarrow> int \<Rightarrow> bool" where
  "starts e port =
     (parse_port (argv e) = Inr port \<and> 0 \<le> port \<and> port \<le> 65535 \<and>
      socket_ok e \<and> bind_ok e \<and> open_ok e)"

text \<open>
  A sequence of datagrams (payload and sender) that all arrive and are all written, as
  events; a datagram of UDP is never longer than the 65535 bytes that \<open>recvfrom\<close> asks for.
\<close>

definition ok_events :: "(bytes \<times> addr) list \<Rightarrow> event list" where
  "ok_events ds = map (\<lambda>d. Datagram (fst d) (snd d) StorageOk) ds"

definition fits :: "(bytes \<times> addr) list \<Rightarrow> bool" where
  "fits ds = list_all (\<lambda>d. length (fst d) \<le> 65535) ds"

definition lengths :: "(bytes \<times> addr) list \<Rightarrow> int list" where
  "lengths ds = map (\<lambda>d. int (length (fst d))) ds"

text \<open>
  When Ctrl-C stops the body at a point: whether line 42 has counted the datagram,
  whether line 43 has added its length, and whether line 46 has written it.
\<close>

fun is_counted :: "point \<Rightarrow> bool" where
  "is_counted BeforeConnected = False"
| "is_counted BeforeCount = False"
| "is_counted pt = True"

fun is_summed :: "point \<Rightarrow> bool" where
  "is_summed BeforeConnected = False"
| "is_summed BeforeCount = False"
| "is_summed BeforeTotal = False"
| "is_summed pt = True"

fun is_written :: "point \<Rightarrow> bool" where
  "is_written BeforeFlush = True"
| "is_written BeforeStats = True"
| "is_written pt = False"

text \<open>
  The event that ends a session by Ctrl-C, in \<open>recvfrom\<close> or in the body, and what
  the datagram that it stops has added to the two counters and to the file.
\<close>

fun graceful :: "event \<Rightarrow> bool" where
  "graceful CtrlC = True"
| "graceful (Interrupted p a pt) = (length p \<le> 65535)"
| "graceful ev = False"

fun counted :: "event \<Rightarrow> int" where
  "counted (Interrupted p a pt) = (if is_counted pt then 1 else 0)"
| "counted ev = 0"

fun summed :: "event \<Rightarrow> int" where
  "summed (Interrupted p a pt) = (if is_summed pt then int (length p) else 0)"
| "summed ev = 0"

text \<open>
  The line of the sender that the datagram stopped by Ctrl-C has caused: it is printed
  when that datagram is the first of the session and line 39 has run.
\<close>

fun stop_lines :: "bool \<Rightarrow> event \<Rightarrow> line list" where
  "stop_lines first (Interrupted p a pt) =
     (if first \<and> pt \<noteq> BeforeConnected then [Connected (fst a) (snd a)] else [])"
| "stop_lines first ev = []"

fun written :: "event \<Rightarrow> bytes" where
  "written (Interrupted p a pt) = (if is_written pt then p else [])"
| "written ev = []"

text \<open>The state after one more datagram, and after a sequence of them.\<close>

definition step :: "state \<Rightarrow> bytes \<times> addr \<Rightarrow> state" where
  "step s d = snd (process s (fst d) (snd d) StorageOk None)"

definition after :: "state \<Rightarrow> (bytes \<times> addr) list \<Rightarrow> state" where
  "after s ds = foldl step s ds"


fun is_connected :: "line \<Rightarrow> bool" where
  "is_connected (Connected h p) = True"
| "is_connected l = False"

fun is_total_packets :: "line \<Rightarrow> bool" where
  "is_total_packets (TotalPackets n) = True"
| "is_total_packets l = False"

text \<open>The bytes of the file of a run, as the operating system has them.\<close>

definition contents :: "result \<Rightarrow> bytes option" where
  "contents r = map_option (\<lambda>nf. os_data (snd nf)) (artifact r)"

text \<open>An environment in which every system call of the start succeeds.\<close>

definition demo :: "string list \<Rightarrow> event list \<Rightarrow> env" where
  "demo av evs =
     \<lparr>argv = av, now_hms = ''12:00:00'', now_stamp = ''20240101_120000'',
      socket_ok = True, bind_ok = True, open_ok = True, events = evs\<rparr>"

text \<open>Three datagrams from two senders, the second one empty.\<close>

definition demo_datagrams :: "(bytes \<times> addr) list" where
  "demo_datagrams =
     [([1, 2, 3], (''10.0.0.1'', 5000)), ([], (''10.0.0.2'', 6000)),
      ([4, 5], (''10.0.0.2'', 6000))]"


text \<open>
  The counters at the moment when the first \<open>k\<close> events of a session have happened and
  the process waits for the next one.
\<close>

definition counters_at :: "env \<Rightarrow> nat \<Rightarrow> int \<times> int" where
  "counters_at e k = the (counters (main (e\<lparr>events := take k (events e)\<rparr>)))"

section \<open>The loop on datagrams that are all written\<close>

lemma recvfrom_fits: "length p \<le> 65535 \<Longrightarrow> recvfrom 65535 (Datagram p a st) = Inr (p, a, st, None)"
  by (simp add: recvfrom_def)

lemma process_ok: "process s data a StorageOk None = (None, step s (data, a))"
  by (simp add: process_def step_def Let_def)

lemma packet_count_step: "packet_count (step s d) = packet_count s + 1"
  by (simp add: step_def process_def print_def Let_def)

lemma total_bytes_step: "total_bytes (step s d) = total_bytes s + int (length (fst d))"
  by (simp add: step_def process_def print_def Let_def)

lemma outfile_step: "outfile (step s d) = f_flush (f_write (fst d) (outfile s))"
  by (simp add: step_def process_def print_def Let_def)

lemma out_step:
  "out (step s d) = out s
     @ (if packet_count s = 0 then [Connected (fst (snd d)) (snd (snd d))] else [])
     @ (if (packet_count s + 1) mod 100 = 0
        then [Progress (packet_count s + 1) (total_bytes s + int (length (fst d)))
                (int (length (fst d)))]
        else [])"
  by (simp add: step_def process_def print_def Let_def)

lemma after_Nil: "after s [] = s"
  by (simp add: after_def)

lemma after_Cons: "after s (d # ds) = after (step s d) ds"
  by (simp add: after_def)


lemma loop_ok:
  "fits ds \<Longrightarrow> receive_loop s (ok_events ds @ rest) = receive_loop (after s ds) rest"
proof (induction ds arbitrary: s)
  case Nil
  show ?case by (simp add: ok_events_def after_Nil)
next
  case (Cons d ds)
  from Cons.prems have len: "length (fst d) \<le> 65535" and rest: "fits ds"
    by (simp_all add: fits_def)
  have "receive_loop s (ok_events (d # ds) @ rest) = receive_loop (step s d) (ok_events ds @ rest)"
    using len by (simp add: ok_events_def recvfrom_fits process_ok)
  then show ?case
    using Cons.IH [OF rest] by (simp add: after_Cons)
qed

lemma packet_count_after: "packet_count (after s ds) = packet_count s + int (length ds)"
  by (induction ds arbitrary: s) (simp_all add: after_Nil after_Cons packet_count_step)

lemma total_bytes_after: "total_bytes (after s ds) = total_bytes s + sum_list (lengths ds)"
  by (induction ds arbitrary: s) (simp_all add: after_Nil after_Cons total_bytes_step lengths_def)

lemma outfile_after:
  "pending (outfile s) = [] \<Longrightarrow>
   outfile (after s ds) = (outfile s)\<lparr>os_data := os_data (outfile s) @ concat (map fst ds)\<rparr>"
proof (induction ds arbitrary: s)
  case Nil
  show ?case by (simp add: after_Nil)
next
  case (Cons d ds)
  have p: "pending (outfile (step s d)) = []"
    by (simp add: outfile_step f_flush_def)
  show ?case
    using Cons.prems
    by (simp add: after_Cons Cons.IH [OF p] outfile_step f_flush_def f_write_def)
qed

section \<open>Runs of \<open>main\<close>\<close>

lemma sock_bind_starts: "starts e port \<Longrightarrow> sock_bind e port = None"
  by (simp add: starts_def sock_bind_def)

lemma main_ctrlc:
  assumes "starts e port"
    and "receive_loop (initial port e) (events e) = (Some KeyboardInterrupt, s)"
  shows "main e =
     \<lparr>status = Exit 0,
      printed = out s @ report (packet_count s) (total_bytes s) (output_file e),
      traceback = None, sock = SockClosed,
      artifact = Some (output_file e, f_close (outfile s)),
      counters = Some (packet_count s, total_bytes s)\<rparr>"
  using assms sock_bind_starts [OF assms(1)] by (simp add: main_def starts_def)

lemma main_blocked:
  assumes "starts e port"
    and "receive_loop (initial port e) (events e) = (None, s)"
  shows "main e =
     \<lparr>status = Blocked, printed = out s, traceback = None,
      sock = Bound port, artifact = Some (output_file e, outfile s),
      counters = Some (packet_count s, total_bytes s)\<rparr>"
  using assms sock_bind_starts [OF assms(1)] by (simp add: main_def starts_def)

lemma main_oserror:
  assumes "starts e port"
    and "receive_loop (initial port e) (events e) = (Some OSError, s)"
  shows "main e =
     uncaught OSError (out s) SockClosed (Some (output_file e, f_close (outfile s)))
       (Some (packet_count s, total_bytes s))"
  using assms sock_bind_starts [OF assms(1)] by (simp add: main_def starts_def)

lemma initial_simps:
  "packet_count (initial port e) = 0"
  "total_bytes (initial port e) = 0"
  "outfile (initial port e) = open_wb"
  "out (initial port e) = startup_lines port (now_hms e) (output_file e)"
  by (simp_all add: initial_def)

lemma close_after_initial:
  "f_close (outfile (after (initial port e) ds)) =
     \<lparr>pending = [], os_data = concat (map fst ds), on_disk = [], closed = True, broken = False\<rparr>"
  by (simp add: outfile_after initial_simps open_wb_def f_close_def f_flush_def)

lemma main_session:
  assumes "starts e port" and "events e = ok_events ds @ CtrlC # rest" and "fits ds"
  shows "main e =
     \<lparr>status = Exit 0,
      printed = out (after (initial port e) ds)
                  @ report (int (length ds)) (sum_list (lengths ds)) (output_file e),
      traceback = None, sock = SockClosed,
      artifact = Some (output_file e,
        \<lparr>pending = [], os_data = concat (map fst ds), on_disk = [], closed = True, broken = False\<rparr>),
      counters = Some (int (length ds), sum_list (lengths ds))\<rparr>"
proof -
  have "receive_loop (initial port e) (events e) =
          (Some KeyboardInterrupt, after (initial port e) ds)"
    using assms(2,3) by (simp add: loop_ok recvfrom_def)
  from main_ctrlc [OF assms(1) this] show ?thesis
    by (simp add: packet_count_after total_bytes_after initial_simps close_after_initial)
qed

lemma parse_port_default: "parse_port [prog] = Inr 8888"
  by (simp add: parse_port_def)

lemma starts_demo: "starts (demo [prog] evs) 8888"
  by (simp add: starts_def demo_def parse_port_default)

lemma py_int_abc: "py_int ''abc'' = None"
  by (simp add: py_int_def strip_def is_space_def parse_nat_def is_digit_def)

lemma total_packets_step:
  "filter is_total_packets (out (step s d)) = filter is_total_packets (out s)"
  by (simp add: out_step)

lemma total_packets_after:
  "filter is_total_packets (out (after s ds)) = filter is_total_packets (out s)"
  by (induction ds arbitrary: s) (simp_all add: after_Nil after_Cons total_packets_step)

lemma total_packets_initial: "filter is_total_packets (out (initial port e)) = []"
  by (simp add: initial_simps startup_lines_def)

lemma total_packets_report:
  "filter is_total_packets (report pc tb name) = [TotalPackets pc]"
  by (simp add: report_def)

lemma length_concat_lengths: "int (length (concat (map fst ds))) = sum_list (lengths ds)"
  by (induction ds) (simp_all add: lengths_def)

lemma split_concat:
  "k < length xs \<Longrightarrow>
   take (length (xs ! k)) (drop (length (concat (take k xs))) (concat xs @ w)) = xs ! k"
proof -
  assume k: "k < length xs"
  then have "xs = take k xs @ xs ! k # drop (Suc k) xs"
    by (rule id_take_nth_drop)
  then have "concat xs = concat (take k xs) @ xs ! k @ concat (drop (Suc k) xs)"
    by (metis concat.simps(2) concat_append)
  then show ?thesis by simp
qed

lemma fits_demo: "fits demo_datagrams"
  by (simp add: fits_def demo_datagrams_def)

lemma events_demo: "events (demo av evs) = evs"
  by (simp add: demo_def)

lemma process_fails:
  "process s data a (StorageFails n) None =
     (Some OSError,
      s\<lparr>packet_count := packet_count s + 1,
        total_bytes := total_bytes s + int (length data),
        outfile := f_flush_fails n (f_write data (outfile s)),
        out := out s @ (if packet_count s = 0 then [Connected (fst a) (snd a)] else [])\<rparr>)"
  by (simp add: process_def print_def Let_def)

text \<open>The state in which Ctrl-C leaves the body, for each point.\<close>

lemma process_interrupted:
  "process s data a StorageOk (Some pt) =
     (Some KeyboardInterrupt,
      s\<lparr>packet_count := packet_count s + (if is_counted pt then 1 else 0),
        total_bytes := total_bytes s + (if is_summed pt then int (length data) else 0),
        outfile := (if pt = BeforeFlush then f_write data (outfile s)
                    else if pt = BeforeStats then f_flush (f_write data (outfile s))
                    else outfile s),
        out := out s @ (if packet_count s = 0 \<and> pt \<noteq> BeforeConnected
                        then [Connected (fst a) (snd a)] else [])\<rparr>)"
  by (cases pt) (simp_all add: process_def print_def Let_def)

lemma connected_step:
  "filter is_connected (out (step s d)) =
     filter is_connected (out s)
       @ (if packet_count s = 0 then [Connected (fst (snd d)) (snd (snd d))] else [])"
  by (simp add: out_step)

lemma connected_loop_later:
  "0 < packet_count s \<Longrightarrow>
   filter is_connected (out (snd (receive_loop s evs))) = filter is_connected (out s)"
proof (induction evs arbitrary: s)
  case Nil
  show ?case by simp
next
  case (Cons ev evs)
  show ?case
  proof (cases ev)
    case (Datagram p a st)
    show ?thesis
    proof (cases st)
      case StorageOk
      have "0 < packet_count (step s (take 65535 p, a))"
        using Cons.prems by (simp add: packet_count_step)
      from Cons.IH [OF this] Cons.prems show ?thesis
        by (simp add: Datagram StorageOk recvfrom_def process_ok connected_step)
    next
      case (StorageFails n)
      show ?thesis
        using Cons.prems by (simp add: Datagram StorageFails recvfrom_def process_fails)
    qed
  next
    case (Interrupted p a pt)
    show ?thesis
      using Cons.prems by (simp add: Interrupted recvfrom_def process_interrupted)
  next
    case RecvFails
    show ?thesis by (simp add: RecvFails recvfrom_def)
  next
    case CtrlC
    show ?thesis by (simp add: CtrlC recvfrom_def)
  qed
qed

lemma connected_loop_first:
  assumes "packet_count s = 0"
  shows "filter is_connected (out (snd (receive_loop s evs))) =
     filter is_connected (out s)
       @ (case evs of
            Datagram p a st # evs' \<Rightarrow> [Connected (fst a) (snd a)]
          | Interrupted p a pt # evs' \<Rightarrow>
              if pt = BeforeConnected then [] else [Connected (fst a) (snd a)]
          | _ \<Rightarrow> [])"
proof (cases evs)
  case Nil
  show ?thesis by (simp add: Nil)
next
  case (Cons ev evs')
  show ?thesis
  proof (cases ev)
    case (Datagram p a st)
    show ?thesis
    proof (cases st)
      case StorageOk
      have "0 < packet_count (step s (take 65535 p, a))"
        by (simp add: packet_count_step assms)
      from connected_loop_later [OF this] show ?thesis
        by (simp add: Cons Datagram StorageOk recvfrom_def process_ok connected_step assms)
    next
      case (StorageFails n)
      show ?thesis
        by (simp add: Cons Datagram StorageFails recvfrom_def process_fails assms)
    qed
  next
    case (Interrupted p a pt)
    show ?thesis
      by (simp add: Cons Interrupted recvfrom_def process_interrupted assms)
  next
    case RecvFails
    show ?thesis by (simp add: Cons RecvFails recvfrom_def)
  next
    case CtrlC
    show ?thesis by (simp add: Cons CtrlC recvfrom_def)
  qed
qed

lemma connected_report: "filter is_connected (report pc tb name) = []"
  by (simp add: report_def)

lemma connected_initial: "filter is_connected (out (initial port e)) = []"
  by (simp add: initial_simps startup_lines_def)

lemma main_printed:
  assumes "starts e port"
  shows "printed (main e) =
     out (snd (receive_loop (initial port e) (events e)))
       @ (if fst (receive_loop (initial port e) (events e)) = Some KeyboardInterrupt
          then report (packet_count (snd (receive_loop (initial port e) (events e))))
                 (total_bytes (snd (receive_loop (initial port e) (events e)))) (output_file e)
          else [])"
proof (cases "receive_loop (initial port e) (events e)")
  case (Pair x s)
  show ?thesis
    using assms sock_bind_starts [OF assms]
    by (cases x) (simp_all add: main_def starts_def Pair uncaught_def)
qed












lemma take_ok_events: "k \<le> length ds \<Longrightarrow> take k (ok_events ds @ rest) = ok_events (take k ds)"
  by (simp add: ok_events_def take_map)

lemma fits_take: "fits ds \<Longrightarrow> fits (take k ds)"
  by (auto simp: fits_def list_all_iff dest: in_set_takeD)

lemma starts_events: "starts (e\<lparr>events := evs\<rparr>) port = starts e port"
  by (simp add: starts_def)

lemma initial_events: "initial port (e\<lparr>events := evs\<rparr>) = initial port e"
  by (simp add: initial_def output_file_def)

lemma main_waiting:
  assumes "starts e port" and "events e = ok_events ds" and "fits ds"
  shows "main e =
     \<lparr>status = Blocked, printed = out (after (initial port e) ds), traceback = None,
      sock = Bound port, artifact = Some (output_file e, outfile (after (initial port e) ds)),
      counters = Some (int (length ds), sum_list (lengths ds))\<rparr>"
proof -
  have "receive_loop (initial port e) (ok_events ds @ []) = (None, after (initial port e) ds)"
    by (simp only: loop_ok [OF assms(3)] receive_loop.simps)
  then have "receive_loop (initial port e) (events e) = (None, after (initial port e) ds)"
    by (simp add: assms(2))
  from main_blocked [OF assms(1) this] show ?thesis
    by (simp add: packet_count_after total_bytes_after initial_simps)
qed

lemma lengths_nonneg: "0 \<le> sum_list (lengths ds)"
  by (induction ds) (simp_all add: lengths_def)

lemma lengths_take_mono:
  assumes "j \<le> k"
  shows "sum_list (lengths (take j ds)) \<le> sum_list (lengths (take k ds))"
proof -
  have "take k ds = take j (take k ds) @ drop j (take k ds)"
    by (simp only: append_take_drop_id)
  also have "take j (take k ds) = take j ds"
    using assms by (simp add: min_def)
  finally have "lengths (take k ds) = lengths (take j ds) @ lengths (drop j (take k ds))"
    by (metis lengths_def map_append)
  then show ?thesis
    using lengths_nonneg [of "drop j (take k ds)"] by simp
qed

lemma counters_at_ok:
  assumes "starts e port" and "events e = ok_events ds @ rest" and "fits ds"
    and "k \<le> length ds"
  shows "counters_at e k = (int k, sum_list (lengths (take k ds)))"
proof -
  have s: "starts (e\<lparr>events := take k (events e)\<rparr>) port"
    using assms(1) by (simp add: starts_events)
  have ev: "events (e\<lparr>events := take k (events e)\<rparr>) = ok_events (take k ds)"
    using take_ok_events [OF assms(4), of rest] by (simp add: assms(2))
  from main_waiting [OF s ev fits_take [OF assms(3)]] assms(4) show ?thesis
    by (simp add: counters_at_def min_def)
qed

lemma loop_write_fails:
  assumes "fits ds" and "length p \<le> 65535"
  shows "receive_loop s (ok_events ds @ Datagram p a (StorageFails n) # rest) =
     (Some OSError,
      (after s ds)\<lparr>packet_count := packet_count (after s ds) + 1,
        total_bytes := total_bytes (after s ds) + int (length p),
        outfile := f_flush_fails n (f_write p (outfile (after s ds))),
        out := out (after s ds)
          @ (if packet_count (after s ds) = 0 then [Connected (fst a) (snd a)] else [])\<rparr>)"
  using assms(2) by (simp add: loop_ok [OF assms(1)] recvfrom_def process_fails)

lemma loop_interrupted:
  assumes "fits ds" and "length p \<le> 65535"
  shows "receive_loop s (ok_events ds @ Interrupted p a pt # rest) =
     (Some KeyboardInterrupt,
      (after s ds)\<lparr>packet_count := packet_count (after s ds) + (if is_counted pt then 1 else 0),
        total_bytes := total_bytes (after s ds) + (if is_summed pt then int (length p) else 0),
        outfile := (if pt = BeforeFlush then f_write p (outfile (after s ds))
                    else if pt = BeforeStats then f_flush (f_write p (outfile (after s ds)))
                    else outfile (after s ds)),
        out := out (after s ds)
          @ (if packet_count (after s ds) = 0 \<and> pt \<noteq> BeforeConnected
             then [Connected (fst a) (snd a)] else [])\<rparr>)"
  using assms(2) by (simp add: loop_ok [OF assms(1)] recvfrom_def process_interrupted)

lemma outfile_after_initial:
  "outfile (after (initial port e) ds) =
     \<lparr>pending = [], os_data = concat (map fst ds), on_disk = [], closed = False, broken = False\<rparr>"
  by (simp add: outfile_after initial_simps open_wb_def)

lemma main_stopped:
  assumes "starts e port" and "events e = ok_events ds @ stop # rest" and "fits ds"
    and "graceful stop"
  shows "main e =
     \<lparr>status = Exit 0,
      printed = out (after (initial port e) ds) @ stop_lines (ds = []) stop
                  @ report (int (length ds) + counted stop) (sum_list (lengths ds) + summed stop)
                      (output_file e),
      traceback = None, sock = SockClosed,
      artifact = Some (output_file e,
        \<lparr>pending = [], os_data = concat (map fst ds) @ written stop, on_disk = [],
         closed = True, broken = False\<rparr>),
      counters = Some (int (length ds) + counted stop, sum_list (lengths ds) + summed stop)\<rparr>"
proof (cases stop)
  case CtrlC
  with main_session [OF assms(1) _ assms(3), of rest] assms(2) show ?thesis
    by simp
next
  case (Interrupted p a pt)
  with assms(4) have len: "length p \<le> 65535" by simp
  note l = loop_interrupted [OF assms(3) len, of "initial port e" a pt rest]
  have pc: "packet_count (after (initial port e) ds) = int (length ds)"
    by (simp add: packet_count_after initial_simps)
  have tb: "total_bytes (after (initial port e) ds) = sum_list (lengths ds)"
    by (simp add: total_bytes_after initial_simps)
  from l have "receive_loop (initial port e) (events e) =
     (Some KeyboardInterrupt,
      (after (initial port e) ds)
        \<lparr>packet_count := int (length ds) + (if is_counted pt then 1 else 0),
         total_bytes := sum_list (lengths ds) + (if is_summed pt then int (length p) else 0),
         outfile := (if pt = BeforeFlush then f_write p (outfile (after (initial port e) ds))
                     else if pt = BeforeStats
                       then f_flush (f_write p (outfile (after (initial port e) ds)))
                     else outfile (after (initial port e) ds)),
         out := out (after (initial port e) ds)
           @ (if ds = [] \<and> pt \<noteq> BeforeConnected then [Connected (fst a) (snd a)] else [])\<rparr>)"
    by (simp add: assms(2) Interrupted pc tb)
  from main_ctrlc [OF assms(1) this] show ?thesis
    by (cases pt)
      (simp_all add: Interrupted outfile_after_initial f_close_def f_flush_def f_write_def)
next
  case (Datagram p a st)
  with assms(4) show ?thesis by simp
next
  case RecvFails
  with assms(4) show ?thesis by simp
qed

section \<open>Failures of the start\<close>

text \<open>
  Claim C9. When the first argument of the command line is not something that \<open>int\<close>
  accepts, line 13 raises \<open>ValueError\<close>, which nothing catches: the process ends with
  status 1 and the traceback, no socket has been created, \<open>bind\<close> has not been
  called, no file has been created and nothing has been printed.
\<close>

theorem bad_port_argument:
  assumes "1 < length (argv e)" and "py_int (argv e ! 1) = None"
  shows "main e = \<lparr>status = Exit 1, printed = [], traceback = Some ValueError,
                    sock = NoSocket, artifact = None, counters = None\<rparr>"
  using assms by (simp add: main_def parse_port_def uncaught_def)

theorem bad_port_argument_witness:
  "1 < length (argv (demo [''test_receiver.py'', ''abc''] [CtrlC]))
   \<and> py_int (argv (demo [''test_receiver.py'', ''abc''] [CtrlC]) ! 1) = None
   \<and> main (demo [''test_receiver.py'', ''abc''] [CtrlC]) =
       \<lparr>status = Exit 1, printed = [], traceback = Some ValueError,
        sock = NoSocket, artifact = None, counters = None\<rparr>"
proof -
  have a: "1 < length (argv (demo [''test_receiver.py'', ''abc''] [CtrlC]))"
    by (simp add: demo_def)
  have b: "py_int (argv (demo [''test_receiver.py'', ''abc''] [CtrlC]) ! 1) = None"
    by (simp add: demo_def py_int_abc)
  from a b bad_port_argument [OF a b] show ?thesis by simp
qed

text \<open>
  Claim C6. When \<open>bind\<close> fails (line 17), the exception is not caught: the process ends
  with status 1 and the traceback of the exception (\<open>OSError\<close> when the operating system
  refuses the port, for instance because it is in use). Line 35, which opens the file,
  is never reached: no file is created.
\<close>

theorem bind_failure:
  assumes "parse_port (argv e) = Inr port" and "socket_ok e" and "\<not> bind_ok e"
  shows "status (main e) = Exit 1
     \<and> traceback (main e) = Some (if port < 0 \<or> 65535 < port then OverflowError else OSError)
     \<and> printed (main e) = []
     \<and> artifact (main e) = None"
  using assms by (simp add: main_def sock_bind_def uncaught_def)

theorem bind_failure_witness:
  "parse_port (argv ((demo [''test_receiver.py''] [])\<lparr>bind_ok := False\<rparr>)) = Inr 8888
   \<and> socket_ok ((demo [''test_receiver.py''] [])\<lparr>bind_ok := False\<rparr>)
   \<and> \<not> bind_ok ((demo [''test_receiver.py''] [])\<lparr>bind_ok := False\<rparr>)
   \<and> status (main ((demo [''test_receiver.py''] [])\<lparr>bind_ok := False\<rparr>)) = Exit 1
   \<and> traceback (main ((demo [''test_receiver.py''] [])\<lparr>bind_ok := False\<rparr>)) = Some OSError
   \<and> artifact (main ((demo [''test_receiver.py''] [])\<lparr>bind_ok := False\<rparr>)) = None"
proof -
  let ?e = "(demo [''test_receiver.py''] [])\<lparr>bind_ok := False\<rparr>"
  have a: "parse_port (argv ?e) = Inr 8888"
    by (simp add: demo_def parse_port_default)
  have b: "socket_ok ?e" and c: "\<not> bind_ok ?e"
    by (simp_all add: demo_def)
  from a b c bind_failure [OF a b c] show ?thesis by simp
qed

section \<open>A session that Ctrl-C ends\<close>

text \<open>
  Claim C1, as the code has it. The claim says that after a shutdown by Ctrl-C the file
  holds the payloads of all the datagrams received and the report shows their number.
  Ctrl-C can stop the body of the loop between the count of a datagram (line 42) and the
  write of it (line 46): here four datagrams are received, the process ends with status
  0 and reports 4 packets, and the file holds the payloads of the first three only.
\<close>

theorem count_and_file_disagree_counterexample:
  "status (main (demo [''test_receiver.py'']
      (ok_events demo_datagrams @ [Interrupted [6, 7] (''10.0.0.1'', 5000) BeforeWrite])))
     = Exit 0
   \<and> filter is_total_packets (printed (main (demo [''test_receiver.py'']
      (ok_events demo_datagrams @ [Interrupted [6, 7] (''10.0.0.1'', 5000) BeforeWrite]))))
     = [TotalPackets 4]
   \<and> contents (main (demo [''test_receiver.py'']
      (ok_events demo_datagrams @ [Interrupted [6, 7] (''10.0.0.1'', 5000) BeforeWrite])))
     = Some [1, 2, 3, 4, 5]"
  by (simp add: main_def demo_def parse_port_def sock_bind_def initial_def output_file_def
      startup_lines_def ok_events_def demo_datagrams_def recvfrom_def process_def print_def
      f_write_def f_flush_def f_close_def open_wb_def report_def contents_def Let_def)

text \<open>
  Claim C1, amended. When the start succeeds and N datagrams have gone through the whole
  body of the loop before Ctrl-C, the process ends with status 0 and the file holds
  exactly their payloads one after the other in the order of arrival, followed by the
  payload of the datagram that Ctrl-C stopped when its write (line 46) had been executed;
  cutting the file at the lengths of the N datagrams gives each payload back. The one
  line of the report that shows the number of packets shows N, and N + 1 when Ctrl-C
  stopped a datagram after its count (line 42). When Ctrl-C arrives while the program
  waits in \<open>recvfrom\<close>, the file is exactly the N payloads, its length the sum of
  their lengths, and the number reported is N.
\<close>

theorem recorded_until_interrupt:
  assumes "starts e port" and "events e = ok_events ds @ stop # rest" and "fits ds"
    and "graceful stop"
  shows "status (main e) = Exit 0
     \<and> contents (main e) = Some (concat (map fst ds) @ written stop)
     \<and> map_option (\<lambda>b. int (length b)) (contents (main e))
         = Some (sum_list (lengths ds) + int (length (written stop)))
     \<and> (\<forall>k < length ds.
          take (length (fst (ds ! k)))
            (drop (length (concat (map fst (take k ds)))) (the (contents (main e))))
          = fst (ds ! k))
     \<and> filter is_total_packets (printed (main e))
         = [TotalPackets (int (length ds) + counted stop)]"
proof -
  note m = main_stopped [OF assms]
  have s: "status (main e) = Exit 0"
    by (simp add: m)
  have c: "contents (main e) = Some (concat (map fst ds) @ written stop)"
    by (simp add: m contents_def)
  have l: "map_option (\<lambda>b. int (length b)) (contents (main e))
         = Some (sum_list (lengths ds) + int (length (written stop)))"
    by (simp add: c length_concat_lengths)
  have r: "\<forall>k < length ds.
          take (length (fst (ds ! k)))
            (drop (length (concat (map fst (take k ds)))) (the (contents (main e))))
          = fst (ds ! k)"
  proof (intro allI impI)
    fix k assume k: "k < length ds"
    then have "k < length (map fst ds)" by simp
    from split_concat [OF this, of "written stop"] k show
      "take (length (fst (ds ! k)))
            (drop (length (concat (map fst (take k ds)))) (the (contents (main e))))
          = fst (ds ! k)"
      by (simp add: c take_map)
  qed
  have "filter is_total_packets (stop_lines (ds = []) stop) = []"
    by (cases stop) simp_all
  then have p: "filter is_total_packets (printed (main e))
         = [TotalPackets (int (length ds) + counted stop)]"
    by (simp add: m total_packets_after total_packets_initial total_packets_report)
  from s c l r p show ?thesis by blast
qed

theorem recorded_until_interrupt_witness:
  "starts (demo [''test_receiver.py''] (ok_events demo_datagrams @ [CtrlC])) 8888
   \<and> fits demo_datagrams
   \<and> graceful CtrlC
   \<and> status (main (demo [''test_receiver.py''] (ok_events demo_datagrams @ [CtrlC]))) = Exit 0
   \<and> contents (main (demo [''test_receiver.py''] (ok_events demo_datagrams @ [CtrlC])))
       = Some [1, 2, 3, 4, 5]
   \<and> filter is_total_packets
        (printed (main (demo [''test_receiver.py''] (ok_events demo_datagrams @ [CtrlC]))))
       = [TotalPackets 3]"
proof -
  let ?e = "demo [''test_receiver.py''] (ok_events demo_datagrams @ [CtrlC])"
  have a: "starts ?e 8888" by (rule starts_demo)
  have b: "events ?e = ok_events demo_datagrams @ CtrlC # []" by (simp add: events_demo)
  have g: "graceful CtrlC" by simp
  from a fits_demo g recorded_until_interrupt [OF a b fits_demo g] show ?thesis
    by (simp add: demo_datagrams_def)
qed

text \<open>
  Claim C7. When the operator presses Ctrl-C during the loop, in \<open>recvfrom\<close> or
  between two statements of the body, the loop ends there and whatever would have
  arrived later plays no part. The file is closed with nothing left in its buffer (a
  payload written but not yet flushed is flushed by the close) and holds exactly the
  payloads written before Ctrl-C. The socket is closed. The output ends with the ten
  lines of the report: the number of packets and the amount of data as the counters have
  them, the name of the file, and the \<open>ffplay\<close> and \<open>vlc\<close> commands for it. The
  process ends with status 0 and no traceback.
\<close>

theorem interrupt_shutdown:
  assumes "starts e port" and "events e = ok_events ds @ stop # rest" and "fits ds"
    and "graceful stop"
  shows "status (main e) = Exit 0
     \<and> traceback (main e) = None
     \<and> sock (main e) = SockClosed
     \<and> (case artifact (main e) of
           None \<Rightarrow> False
         | Some (name, fl) \<Rightarrow>
             name = output_file e \<and> closed fl \<and> pending fl = []
             \<and> os_data fl = concat (map fst ds) @ written stop)
     \<and> suffix
          [Equals, Stopped, TotalPackets (int (length ds) + counted stop),
           TotalData (sum_list (lengths ds) + summed stop), SavedTo (output_file e), Equals,
           ToPlay, Ffplay (output_file e), Or, Vlc (output_file e)]
          (printed (main e))
     \<and> main e = main (e\<lparr>events := ok_events ds @ [stop]\<rparr>)"
proof -
  note m = main_stopped [OF assms]
  have s': "starts (e\<lparr>events := ok_events ds @ [stop]\<rparr>) port"
    using assms(1) by (simp add: starts_def)
  have e': "events (e\<lparr>events := ok_events ds @ [stop]\<rparr>) = ok_events ds @ stop # []"
    by simp
  note m' = main_stopped [OF s' e' assms(3,4)]
  have 1: "main e = main (e\<lparr>events := ok_events ds @ [stop]\<rparr>)"
    by (simp add: m m' initial_def output_file_def)
  have 2: "suffix
          [Equals, Stopped, TotalPackets (int (length ds) + counted stop),
           TotalData (sum_list (lengths ds) + summed stop), SavedTo (output_file e), Equals,
           ToPlay, Ffplay (output_file e), Or, Vlc (output_file e)]
          (printed (main e))"
    by (simp add: m suffix_def report_def)
  have 3: "status (main e) = Exit 0" and 4: "traceback (main e) = None"
    and 5: "sock (main e) = SockClosed"
    by (simp_all add: m)
  have 6: "(case artifact (main e) of
           None \<Rightarrow> False
         | Some (name, fl) \<Rightarrow>
             name = output_file e \<and> closed fl \<and> pending fl = []
             \<and> os_data fl = concat (map fst ds) @ written stop)"
    by (simp add: m)
  from 1 2 3 4 5 6 show ?thesis by blast
qed

theorem interrupt_shutdown_witness:
  "starts (demo [''test_receiver.py'']
      (ok_events demo_datagrams
         @ [Interrupted [6, 7] (''10.0.0.3'', 7000) BeforeFlush,
            Datagram [9] (''10.0.0.3'', 7000) StorageOk])) 8888
   \<and> fits demo_datagrams
   \<and> graceful (Interrupted [6, 7] (''10.0.0.3'', 7000) BeforeFlush)
   \<and> status (main (demo [''test_receiver.py'']
      (ok_events demo_datagrams
         @ [Interrupted [6, 7] (''10.0.0.3'', 7000) BeforeFlush,
            Datagram [9] (''10.0.0.3'', 7000) StorageOk]))) = Exit 0
   \<and> artifact (main (demo [''test_receiver.py'']
      (ok_events demo_datagrams
         @ [Interrupted [6, 7] (''10.0.0.3'', 7000) BeforeFlush,
            Datagram [9] (''10.0.0.3'', 7000) StorageOk])))
      = Some (''stream_20240101_120000.h264'',
          \<lparr>pending = [], os_data = [1, 2, 3, 4, 5, 6, 7], on_disk = [], closed = True,
           broken = False\<rparr>)
   \<and> suffix
        [Equals, Stopped, TotalPackets 4, TotalData 7,
         SavedTo ''stream_20240101_120000.h264'', Equals, ToPlay,
         Ffplay ''stream_20240101_120000.h264'', Or, Vlc ''stream_20240101_120000.h264'']
        (printed (main (demo [''test_receiver.py'']
          (ok_events demo_datagrams
             @ [Interrupted [6, 7] (''10.0.0.3'', 7000) BeforeFlush,
                Datagram [9] (''10.0.0.3'', 7000) StorageOk]))))"
proof -
  let ?stop = "Interrupted [6, 7] (''10.0.0.3'', 7000) BeforeFlush"
  let ?e = "demo [''test_receiver.py'']
      (ok_events demo_datagrams @ [?stop, Datagram [9] (''10.0.0.3'', 7000) StorageOk])"
  have a: "starts ?e 8888" by (rule starts_demo)
  have b: "events ?e = ok_events demo_datagrams @ ?stop # [Datagram [9] (''10.0.0.3'', 7000) StorageOk]"
    by (simp add: events_demo)
  have g: "graceful ?stop" by simp
  have n: "output_file ?e = ''stream_20240101_120000.h264''"
    by (simp add: output_file_def demo_def)
  have f: "artifact (main (?e\<lparr>events := ok_events demo_datagrams @ [?stop]\<rparr>))
      = Some (''stream_20240101_120000.h264'',
          \<lparr>pending = [], os_data = [1, 2, 3, 4, 5, 6, 7], on_disk = [], closed = True,
           broken = False\<rparr>)"
    by (simp add: main_def demo_def parse_port_def sock_bind_def initial_def output_file_def
        startup_lines_def ok_events_def demo_datagrams_def recvfrom_def process_def print_def
        f_write_def f_flush_def f_close_def open_wb_def Let_def)
  note t = interrupt_shutdown [OF a b fits_demo g]
  from t have 1: "status (main ?e) = Exit 0" by blast
  from t have "main ?e = main (?e\<lparr>events := ok_events demo_datagrams @ [?stop]\<rparr>)"
    by blast
  with f have 2: "artifact (main ?e)
      = Some (''stream_20240101_120000.h264'',
          \<lparr>pending = [], os_data = [1, 2, 3, 4, 5, 6, 7], on_disk = [], closed = True,
           broken = False\<rparr>)"
    by simp
  from t have "suffix
          [Equals, Stopped, TotalPackets (int (length demo_datagrams) + counted ?stop),
           TotalData (sum_list (lengths demo_datagrams) + summed ?stop),
           SavedTo (output_file ?e), Equals,
           ToPlay, Ffplay (output_file ?e), Or, Vlc (output_file ?e)]
          (printed (main ?e))"
    by blast
  then have 3: "suffix
        [Equals, Stopped, TotalPackets 4, TotalData 7,
         SavedTo ''stream_20240101_120000.h264'', Equals, ToPlay,
         Ffplay ''stream_20240101_120000.h264'', Or, Vlc ''stream_20240101_120000.h264'']
        (printed (main ?e))"
    unfolding n by (simp add: demo_datagrams_def lengths_def)
  from a fits_demo g 1 2 3 show ?thesis by blast
qed

section \<open>What the loop prints\<close>

text \<open>
  Claim C8. In every session that starts, whatever happens in the loop afterwards, the
  line that shows the address of a sender is printed exactly once when a datagram is
  received first, with the address of that first datagram, and never again: not for later
  datagrams and not for other senders. It is not printed at all when the first thing that
  happens is not a datagram, or when Ctrl-C stops the body for the first datagram before
  line 39 has run.
\<close>

theorem sender_reported_once:
  assumes "starts e port"
  shows "filter is_connected (printed (main e)) =
     (case events e of
        Datagram p a st # evs \<Rightarrow> [Connected (fst a) (snd a)]
      | Interrupted p a pt # evs \<Rightarrow>
          if pt = BeforeConnected then [] else [Connected (fst a) (snd a)]
      | _ \<Rightarrow> [])"
proof -
  have "filter is_connected (printed (main e)) =
     filter is_connected (out (snd (receive_loop (initial port e) (events e))))"
    by (simp add: main_printed [OF assms] connected_report)
  also have "\<dots> = filter is_connected (out (initial port e))
       @ (case events e of
            Datagram p a st # evs \<Rightarrow> [Connected (fst a) (snd a)]
          | Interrupted p a pt # evs \<Rightarrow>
              if pt = BeforeConnected then [] else [Connected (fst a) (snd a)]
          | _ \<Rightarrow> [])"
    by (rule connected_loop_first) (simp add: initial_simps)
  finally show ?thesis
    by (simp add: connected_initial)
qed

theorem sender_reported_once_witness:
  "starts (demo [''test_receiver.py''] (ok_events demo_datagrams @ [CtrlC])) 8888
   \<and> filter is_connected
        (printed (main (demo [''test_receiver.py''] (ok_events demo_datagrams @ [CtrlC]))))
       = [Connected ''10.0.0.1'' 5000]"
proof -
  let ?e = "demo [''test_receiver.py''] (ok_events demo_datagrams @ [CtrlC])"
  have a: "starts ?e 8888" by (rule starts_demo)
  from a sender_reported_once [OF a] show ?thesis
    by (simp add: events_demo ok_events_def demo_datagrams_def)
qed



section \<open>The counters\<close>

text \<open>
  Claim C4. In a session that starts, both counters are 0 before anything is received;
  at the moment when the first \<open>k\<close> datagrams have been processed, \<open>packet_count\<close> is
  \<open>k\<close> and \<open>total_bytes\<close> is the sum of the lengths of the first \<open>k\<close> payloads; and
  from one such moment to a later one neither counter decreases.
\<close>

theorem counters_after_each_datagram:
  assumes "starts e port" and "events e = ok_events ds @ rest" and "fits ds"
  shows "counters_at e 0 = (0, 0)
     \<and> (\<forall>k \<le> length ds. counters_at e k = (int k, sum_list (lengths (take k ds))))
     \<and> (\<forall>j k. j \<le> k \<and> k \<le> length ds \<longrightarrow>
           fst (counters_at e j) \<le> fst (counters_at e k)
           \<and> snd (counters_at e j) \<le> snd (counters_at e k))"
proof -
  have 1: "\<forall>k \<le> length ds. counters_at e k = (int k, sum_list (lengths (take k ds)))"
    using counters_at_ok [OF assms] by blast
  have 0: "counters_at e 0 = (0, 0)"
    using counters_at_ok [OF assms, of 0] by (simp add: lengths_def)
  have 2: "\<forall>j k. j \<le> k \<and> k \<le> length ds \<longrightarrow>
           fst (counters_at e j) \<le> fst (counters_at e k)
           \<and> snd (counters_at e j) \<le> snd (counters_at e k)"
  proof (intro allI impI)
    fix j k assume jk: "j \<le> k \<and> k \<le> length ds"
    then have "j \<le> length ds" by simp
    with jk 1 have "counters_at e j = (int j, sum_list (lengths (take j ds)))"
      and "counters_at e k = (int k, sum_list (lengths (take k ds)))"
      by blast+
    with jk show "fst (counters_at e j) \<le> fst (counters_at e k)
           \<and> snd (counters_at e j) \<le> snd (counters_at e k)"
      by (simp add: lengths_take_mono)
  qed
  from 0 1 2 show ?thesis by blast
qed

theorem counters_after_each_datagram_witness:
  "starts (demo [''test_receiver.py''] (ok_events demo_datagrams @ [CtrlC])) 8888
   \<and> fits demo_datagrams
   \<and> (0 :: nat) \<le> 2 \<and> (2 :: nat) \<le> length demo_datagrams
   \<and> counters_at (demo [''test_receiver.py''] (ok_events demo_datagrams @ [CtrlC])) 0 = (0, 0)
   \<and> counters_at (demo [''test_receiver.py''] (ok_events demo_datagrams @ [CtrlC])) 2 = (2, 3)
   \<and> counters_at (demo [''test_receiver.py''] (ok_events demo_datagrams @ [CtrlC])) 3 = (3, 5)"
proof -
  let ?e = "demo [''test_receiver.py''] (ok_events demo_datagrams @ [CtrlC])"
  have a: "starts ?e 8888" by (rule starts_demo)
  have b: "events ?e = ok_events demo_datagrams @ [CtrlC]" by (simp add: events_demo)
  have l: "length demo_datagrams = 3" by (simp add: demo_datagrams_def)
  note t = counters_after_each_datagram [OF a b fits_demo]
  from t have k: "\<forall>k \<le> length demo_datagrams.
      counters_at ?e k = (int k, sum_list (lengths (take k demo_datagrams)))"
    by blast
  from k l have "counters_at ?e 2 = (int 2, sum_list (lengths (take 2 demo_datagrams)))"
    by simp
  then have 2: "counters_at ?e 2 = (2, 3)"
    by (simp add: demo_datagrams_def lengths_def)
  from k l have "counters_at ?e 3 = (int 3, sum_list (lengths (take 3 demo_datagrams)))"
    by simp
  then have 3: "counters_at ?e 3 = (3, 5)"
    by (simp add: demo_datagrams_def lengths_def)
  from t have 0: "counters_at ?e 0 = (0, 0)" by blast
  from a fits_demo l 0 2 3 show ?thesis by simp
qed

section \<open>One datagram\<close>

text \<open>
  Claim C10. A datagram of length 0 (with nothing left in the buffer of the file, as
  after every iteration) goes through the body of the loop like any other: the loop goes
  on with \<open>packet_count\<close> one higher, \<open>total_bytes\<close> and the file as they were, the
  line of the sender printed when it is the first datagram, and the line of statistics
  printed when the new \<open>packet_count\<close> is a multiple of 100.
\<close>

theorem empty_datagram:
  assumes "pending (outfile s) = []"
  shows "receive_loop s (Datagram [] a StorageOk # evs) =
     receive_loop
       (s\<lparr>packet_count := packet_count s + 1,
          out := out s
            @ (if packet_count s = 0 then [Connected (fst a) (snd a)] else [])
            @ (if (packet_count s + 1) mod 100 = 0
               then [Progress (packet_count s + 1) (total_bytes s) 0] else [])\<rparr>)
       evs"
proof -
  have "f_flush (f_write [] (outfile s)) = outfile s"
    using assms by (simp add: f_flush_def f_write_def)
  then have "step s ([], a) =
       s\<lparr>packet_count := packet_count s + 1,
          out := out s
            @ (if packet_count s = 0 then [Connected (fst a) (snd a)] else [])
            @ (if (packet_count s + 1) mod 100 = 0
               then [Progress (packet_count s + 1) (total_bytes s) 0] else [])\<rparr>"
    by (simp add: step_def process_def print_def Let_def)
  then show ?thesis
    by (simp add: recvfrom_def process_ok)
qed

theorem empty_datagram_witness:
  "pending (outfile \<lparr>packet_count = 99, total_bytes = 500,
                     outfile = open_wb\<lparr>os_data := [1, 2]\<rparr>, out = []\<rparr>) = []
   \<and> receive_loop \<lparr>packet_count = 99, total_bytes = 500,
                    outfile = open_wb\<lparr>os_data := [1, 2]\<rparr>, out = []\<rparr>
        [Datagram [] (''10.0.0.1'', 5000) StorageOk, CtrlC]
      = (Some KeyboardInterrupt,
         \<lparr>packet_count = 100, total_bytes = 500,
          outfile = open_wb\<lparr>os_data := [1, 2]\<rparr>, out = [Progress 100 500 0]\<rparr>)"
proof -
  let ?s = "\<lparr>packet_count = 99, total_bytes = 500,
             outfile = open_wb\<lparr>os_data := [1, 2]\<rparr>, out = []\<rparr>"
  have a: "pending (outfile ?s) = []" by (simp add: open_wb_def)
  from a empty_datagram [OF a, of "(''10.0.0.1'', 5000)" "[CtrlC]"] show ?thesis
    by (simp add: recvfrom_def)
qed

section \<open>Counting, writing and flushing\<close>

text \<open>
  Claim C2, as the code has it. The claim says that the counters are updated only after
  the write has succeeded, so that they do not include a datagram whose write fails. The
  code updates them first (lines 42 and 43) and writes afterwards (lines 46 and 47):
  when the storage refuses the third byte of the only datagram of a session, the process
  ends with the traceback of \<open>OSError\<close> and the counters are 1 and 3.
\<close>

theorem counted_before_written_counterexample:
  "traceback (main (demo [''test_receiver.py'']
       [Datagram [1, 2, 3] (''10.0.0.1'', 5000) (StorageFails 2)])) = Some OSError
   \<and> counters (main (demo [''test_receiver.py'']
       [Datagram [1, 2, 3] (''10.0.0.1'', 5000) (StorageFails 2)])) = Some (1, 3)"
  by (simp add: main_def demo_def parse_port_def sock_bind_def initial_def recvfrom_def
      process_fails uncaught_def)

text \<open>
  Claim C2, amended. For every received datagram the counters are updated before the
  write is attempted: when the write or the flush of a datagram fails after N datagrams
  were written, the counters already include the datagram that failed (N + 1 packets, and
  its bytes in the sum). Nothing catches the error: the process ends with status 1 and
  the traceback of \<open>OSError\<close>.
\<close>

theorem counted_before_written:
  assumes "starts e port"
    and "events e = ok_events ds @ Datagram p a (StorageFails n) # rest"
    and "fits ds" and "length p \<le> 65535"
  shows "counters (main e) = Some (int (length ds) + 1, sum_list (lengths ds) + int (length p))
     \<and> status (main e) = Exit 1
     \<and> traceback (main e) = Some OSError"
proof -
  note l = loop_write_fails [OF assms(3,4), of "initial port e" a n rest]
  from l have "receive_loop (initial port e) (events e) =
     (Some OSError,
      (after (initial port e) ds)
        \<lparr>packet_count := packet_count (after (initial port e) ds) + 1,
         total_bytes := total_bytes (after (initial port e) ds) + int (length p),
         outfile := f_flush_fails n (f_write p (outfile (after (initial port e) ds))),
         out := out (after (initial port e) ds)
           @ (if packet_count (after (initial port e) ds) = 0
              then [Connected (fst a) (snd a)] else [])\<rparr>)"
    by (simp add: assms(2))
  from main_oserror [OF assms(1) this] show ?thesis
    by (simp add: uncaught_def packet_count_after total_bytes_after initial_simps)
qed

theorem counted_before_written_witness:
  "starts (demo [''test_receiver.py'']
      (ok_events demo_datagrams @ [Datagram [6, 7] (''10.0.0.1'', 5000) (StorageFails 1)])) 8888
   \<and> fits demo_datagrams
   \<and> length [6, 7 :: 8 word] \<le> 65535
   \<and> counters (main (demo [''test_receiver.py'']
        (ok_events demo_datagrams @ [Datagram [6, 7] (''10.0.0.1'', 5000) (StorageFails 1)])))
       = Some (4, 7)
   \<and> status (main (demo [''test_receiver.py'']
        (ok_events demo_datagrams @ [Datagram [6, 7] (''10.0.0.1'', 5000) (StorageFails 1)])))
       = Exit 1"
proof -
  let ?e = "demo [''test_receiver.py'']
      (ok_events demo_datagrams @ [Datagram [6, 7] (''10.0.0.1'', 5000) (StorageFails 1)])"
  have a: "starts ?e 8888" by (rule starts_demo)
  have b: "events ?e =
      ok_events demo_datagrams @ Datagram [6, 7] (''10.0.0.1'', 5000) (StorageFails 1) # []"
    by (simp add: events_demo)
  have c: "length [6, 7 :: 8 word] \<le> 65535" by simp
  from a fits_demo counted_before_written [OF a b fits_demo c] show ?thesis
    by (simp add: demo_datagrams_def lengths_def)
qed

text \<open>
  Claim C3, as the code has it. The claim says that each write is forced to durable
  storage before the next datagram is received. The code calls \<open>f.flush()\<close>, which hands
  the buffer of the file object to the operating system, and never \<open>os.fsync\<close>: when the
  process waits for the second datagram, the three bytes of the first are with the
  operating system and none of them has been forced to the storage device.
\<close>

theorem flush_is_not_fsync_counterexample:
  "status (main (demo [''test_receiver.py'']
       [Datagram [1, 2, 3] (''10.0.0.1'', 5000) StorageOk])) = Blocked
   \<and> map_option snd (artifact (main (demo [''test_receiver.py'']
       [Datagram [1, 2, 3] (''10.0.0.1'', 5000) StorageOk])))
      = Some \<lparr>pending = [], os_data = [1, 2, 3], on_disk = [], closed = False, broken = False\<rparr>"
  by (simp add: main_def demo_def parse_port_def sock_bind_def initial_def output_file_def
      startup_lines_def recvfrom_def process_def print_def f_write_def f_flush_def
      open_wb_def Let_def)

text \<open>
  Claim C3, amended. For every datagram, the write puts exactly the payload at the end of
  the file and the flush hands it to the operating system before the loop receives the
  next datagram, with nothing left in the buffer of the file object: the death of the
  process right after does not lose the datagram. Nothing is forced to the storage device.
\<close>

theorem append_reaches_the_system:
  assumes "length p \<le> 65535"
  shows "receive_loop s (Datagram p a StorageOk # evs) = receive_loop (step s (p, a)) evs
     \<and> pending (outfile (step s (p, a))) = []
     \<and> os_data (outfile (step s (p, a))) = os_data (outfile s) @ pending (outfile s) @ p
     \<and> on_disk (outfile (step s (p, a))) = on_disk (outfile s)"
  using assms
  by (simp add: recvfrom_def process_ok outfile_step f_flush_def f_write_def)

theorem append_reaches_the_system_witness:
  "length [1, 2, 3 :: 8 word] \<le> 65535
   \<and> receive_loop (initial 8888 (demo [''test_receiver.py''] []))
        [Datagram [1, 2, 3] (''10.0.0.1'', 5000) StorageOk]
      = (None, step (initial 8888 (demo [''test_receiver.py''] [])) ([1, 2, 3], (''10.0.0.1'', 5000)))
   \<and> outfile (step (initial 8888 (demo [''test_receiver.py''] [])) ([1, 2, 3], (''10.0.0.1'', 5000)))
      = \<lparr>pending = [], os_data = [1, 2, 3], on_disk = [], closed = False, broken = False\<rparr>"
proof -
  have a: "length [1, 2, 3 :: 8 word] \<le> 65535" by simp
  from append_reaches_the_system [OF a, of "initial 8888 (demo [''test_receiver.py''] [])"
      "(''10.0.0.1'', 5000)" "[]"]
  show ?thesis
    by (simp add: initial_simps open_wb_def outfile_step f_flush_def f_write_def)
qed

end
